theory Spec2Isabelle
  imports Main "HOL-Library.Word"
begin

section \<open>The pipeline controller of file.d (pipeline/pipeline.go)\<close>

text \<open>
  The controller is modelled by explicit state passing over a record of the fields of
  \<open>Pipeline\<close>. Every call it makes to a collaborator whose code lives outside
  pipeline.go (logger, antispamer, streamer, stream, processors, input and output plugin)
  is appended to the field \<open>calls\<close>, in program order; the write of the stop
  flag is recorded there too (\<open>SetShouldStop\<close>). What a collaborator answers
  is taken from a record of functions (\<open>Deps\<close>).
  A call that does not return normally is a value of \<open>outcome\<close>: \<open>logger.Fatalf\<close>
  ends the process, \<open>logger.Panicf\<close> and the runtime panic, a blocked \<open>get\<close> never
  returns.
\<close>

subsection \<open>Documents\<close>

text \<open>
  The document tree of an event (package insane-json). \<open>Dig\<close> with one path element
  looks a field up in an object and answers nil on anything else. \<open>AsString\<close> gives the
  contents of a string node; of the other nodes, a number gives its text, \<open>true\<close>,
  \<open>false\<close> and \<open>null\<close> their literal, an array or an object the empty string.
\<close>

datatype Node =
    JNull
  | JBool bool
  | JNumber string
  | JString string
  | JArray "Node list"
  | JObject "(string \<times> Node) list"

fun Dig :: "Node \<Rightarrow> string \<Rightarrow> Node option" where
  "Dig (JObject fields) name = map_of fields name"
| "Dig _ name = None"

fun AsString :: "Node \<Rightarrow> string" where
  "AsString (JString s) = s"
| "AsString (JNumber s) = s"
| "AsString (JBool b) = (if b then ''true'' else ''false'')"
| "AsString JNull = ''null''"
| "AsString _ = []"

subsection \<open>Events, settings and the pipeline\<close>

datatype eventKind = normal | timeout | unlocked

text \<open>
  Modelled from the spec: the type \<open>Event\<close> (event.go is not among the sources). The
  fields are the ones pipeline.go reads and writes; the kind is one of normal, timeout,
  unlocked, and \<open>IsTimeoutKind\<close> tests for the second.
\<close>

record Event =
  Root :: Node
  SeqID :: "64 word"
  SourceID :: "64 word"
  SourceName :: string
  Offset :: "64 word"
  Size :: int
  streamName :: string
  kind :: eventKind

definition IsTimeoutKind :: "Event \<Rightarrow> bool" where
  "IsTimeoutKind e = (kind e = timeout)"

datatype DecoderType = NO | AUTO | JSON | RAW | CRI | POSTGRES

record Settings =
  Decoder :: string
  Capacity :: int
  MaintenanceInterval :: int
  AntispamThreshold :: int
  AvgLogSize :: int
  StreamField :: string
  IsStrict :: bool

definition DefaultStreamName :: string where
  "DefaultStreamName = ''not_set''"

datatype level = InfoLevel | WarnLevel | ErrorLevel | FatalLevel | PanicLevel

datatype call =
    Log level
  | AntispamIsSpam "64 word" string bool
  | AntispamMaintenance
  | MetricsMaintenance
  | StreamerPutEvent "64 word" string Event
  | StreamerStop
  | StreamCommit Event
  | InputCommit Event
  | InputStop
  | OutputStop
  | ProcessorStart nat
  | ProcessorStop nat
  | SetShouldStop
  | SplunkSend string
  | FileWrite string
  | Sleep int

datatype 'a outcome = Returns 'a | Fatal | Panics | Blocks

record Pipeline =
  Name :: string
  settings :: Settings
  decoder :: DecoderType
  suggestedDecoder :: DecoderType
  eventPool :: "Event list"
  useSpread :: bool
  disableStreams :: bool
  singleProc :: bool
  shouldStop :: bool
  Procs :: "nat list"
  procCount :: "32 word"
  activeProcs :: "32 word"
  eventLogEnabled :: bool
  eventLog :: "string list"
  inSample :: string
  outSample :: string
  totalCommitted :: "64 word"
  totalSize :: "64 word"
  maxSize :: int
  calls :: "call list"

definition called :: "call \<Rightarrow> Pipeline \<Rightarrow> Pipeline" where
  "called c p = p\<lparr>calls := calls p @ [c]\<rparr>"

text \<open>
  What the collaborators answer: the antispamer's verdict, the three decoders that can
  fail (an error message or the decoded root), the sequence id the streamer assigns, and
  the encoder of a document.
\<close>

record Deps =
  isSpam :: "64 word \<Rightarrow> string \<Rightarrow> bool \<Rightarrow> bool"
  parseJSON :: "string \<Rightarrow> string + Node"
  DecodeCRI :: "string \<Rightarrow> string + Node"
  DecodePostgres :: "string \<Rightarrow> string + Node"
  putEvent :: "64 word \<Rightarrow> string \<Rightarrow> Event \<Rightarrow> 64 word"
  Encode :: "Node \<Rightarrow> string"

subsection \<open>The event pool\<close>

text \<open>
  Modelled from the spec: the event pool (\<open>eventPool.get\<close> and \<open>eventPool.back\<close>
  are not among the sources). The pool is a free list of preallocated events;
  \<open>freeEventsCount\<close> is its length. \<open>get\<close> takes an event off the list and blocks
  when there is none (the result \<open>None\<close>); \<open>back\<close> releases an event to the list.
\<close>

definition freeEventsCount :: "Pipeline \<Rightarrow> nat" where
  "freeEventsCount p = length (eventPool p)"

definition eventPool_get :: "Pipeline \<Rightarrow> (Event \<times> Pipeline) option" where
  "eventPool_get p =
     (case eventPool p of
        [] \<Rightarrow> None
      | e # es \<Rightarrow> Some (e, p\<lparr>eventPool := es\<rparr>))"

definition eventPool_back :: "Event \<Rightarrow> Pipeline \<Rightarrow> Pipeline" where
  "eventPool_back e p = p\<lparr>eventPool := eventPool p @ [e]\<rparr>"

text \<open>The events handed to the streamer, in order, as the list of calls records them.\<close>

fun putEvents :: "call list \<Rightarrow> Event list" where
  "putEvents [] = []"
| "putEvents (StreamerPutEvent sourceID sn event # cs) = event # putEvents cs"
| "putEvents (c # cs) = putEvents cs"

definition enqueued :: "Pipeline \<Rightarrow> Event list" where
  "enqueued p = putEvents (calls p)"

subsection \<open>Intake: In and streamEvent\<close>

text \<open>
  \<open>streamEvent\<close>. The remainder \<open>event.SeqID % uint64(p.procCount.Load())\<close> converts
  the 32-bit signed count with sign extension and panics on a zero divisor.
\<close>

definition streamEvent :: "Deps \<Rightarrow> Event \<Rightarrow> Pipeline \<Rightarrow> 64 word outcome \<times> Pipeline" where
  "streamEvent d event p =
     (if useSpread p \<and> procCount p = 0 then (Panics, p)
      else
        let event1 = (if useSpread p
                      then event\<lparr>SourceID := SeqID event mod scast (procCount p)\<rparr>
                      else event);
            event2 = (if \<not> disableStreams p
                      then (case Dig (Root event1) (StreamField (settings p)) of
                              Some node \<Rightarrow> event1\<lparr>streamName := AsString node\<rparr>
                            | None \<Rightarrow> event1)
                      else event1)
        in (Returns (putEvent d (SourceID event2) (streamName event2) event2),
            called (StreamerPutEvent (SourceID event2) (streamName event2) event2) p))"

text \<open>
  The second half of \<open>In\<close>, after the decoder switch: metadata stamping, the input
  sample, and the hand-over to \<open>streamEvent\<close>.
\<close>

definition In_stamp ::
  "Deps \<Rightarrow> 64 word \<Rightarrow> string \<Rightarrow> 64 word \<Rightarrow> string \<Rightarrow> Event \<Rightarrow> Pipeline \<Rightarrow> 64 word outcome \<times> Pipeline" where
  "In_stamp d sourceID sourceName offset bytes event p =
     (let event1 = event\<lparr>Offset := offset, SourceID := sourceID, SourceName := sourceName,
                          streamName := DefaultStreamName, Size := int (length bytes)\<rparr>;
          p1 = (if length (inSample p) = 0
                then p\<lparr>inSample := Encode d (Root event1)\<rparr> else p)
      in streamEvent d event1 p1)"

text \<open>
  The locals \<open>isEmpty\<close> and \<open>dec\<close> of \<open>In\<close>: the record is empty or a lone
  newline; the decoder the switch dispatches on.
\<close>

definition isEmpty :: "string \<Rightarrow> bool" where
  "isEmpty bytes = (length bytes = 0 \<or> (bytes ! 0 = CHR 0x0A \<and> length bytes = 1))"

definition selectedDecoder :: "Pipeline \<Rightarrow> DecoderType" where
  "selectedDecoder p =
     (let dec0 = (if decoder p = AUTO then suggestedDecoder p else decoder p)
      in if dec0 = NO then JSON else dec0)"

definition In ::
  "Deps \<Rightarrow> 64 word \<Rightarrow> string \<Rightarrow> 64 word \<Rightarrow> string \<Rightarrow> bool \<Rightarrow> Pipeline \<Rightarrow> 64 word outcome \<times> Pipeline" where
  "In d sourceID sourceName offset bytes isNewSource p =
     (let spam = isSpam d sourceID sourceName isNewSource;
          p0 = called (AntispamIsSpam sourceID sourceName isNewSource) p
      in if isEmpty bytes \<or> spam then (Returns 0, p0)
         else
           (case eventPool_get p0 of
              None \<Rightarrow> (Blocks, p0)
            | Some (event, p1) \<Rightarrow>
                (case selectedDecoder p1 of
                   JSON \<Rightarrow>
                     (case parseJSON d bytes of
                        Inl err \<Rightarrow>
                          (if IsStrict (settings p1)
                           then (Fatal, called (Log FatalLevel) p1)
                           else (Returns 0, called (Log ErrorLevel) p1))
                      | Inr root \<Rightarrow>
                          In_stamp d sourceID sourceName offset bytes (event\<lparr>Root := root\<rparr>) p1)
                 | RAW \<Rightarrow>
                     In_stamp d sourceID sourceName offset bytes
                       (event\<lparr>Root := JObject [(''message'', JString (butlast bytes))]\<rparr>) p1
                 | CRI \<Rightarrow>
                     (case DecodeCRI d bytes of
                        Inl err \<Rightarrow> (Fatal, called (Log FatalLevel) p1)
                      | Inr root \<Rightarrow>
                          In_stamp d sourceID sourceName offset bytes (event\<lparr>Root := root\<rparr>) p1)
                 | POSTGRES \<Rightarrow>
                     (case DecodePostgres d bytes of
                        Inl err \<Rightarrow> (Fatal, called (Log FatalLevel) p1)
                      | Inr root \<Rightarrow>
                          In_stamp d sourceID sourceName offset bytes (event\<lparr>Root := root\<rparr>) p1)
                 | _ \<Rightarrow> (Panics, called (Log PanicLevel) p1))))"

text \<open>
  \<open>decodesTo d p bytes root\<close>: the decoder that \<open>In\<close> selects accepts the record
  and yields the document \<open>root\<close>.
\<close>

definition decodesTo :: "Deps \<Rightarrow> Pipeline \<Rightarrow> string \<Rightarrow> Node \<Rightarrow> bool" where
  "decodesTo d p bytes root =
     (case selectedDecoder p of
        JSON \<Rightarrow> parseJSON d bytes = Inr root
      | RAW \<Rightarrow> root = JObject [(''message'', JString (butlast bytes))]
      | CRI \<Rightarrow> DecodeCRI d bytes = Inr root
      | POSTGRES \<Rightarrow> DecodePostgres d bytes = Inr root
      | _ \<Rightarrow> False)"

subsection \<open>Commit and finalize\<close>

text \<open>
  \<open>finalize\<close>. The argument \<open>coin\<close> is the low bit of \<open>rand.Int()\<close>, which
  decides whether the event becomes the output sample.
\<close>

definition finalize :: "Deps \<Rightarrow> bool \<Rightarrow> Event \<Rightarrow> bool \<Rightarrow> bool \<Rightarrow> Pipeline \<Rightarrow> Pipeline" where
  "finalize d coin event notifyInput backEvent p =
     (if IsTimeoutKind event then p
      else
        let p1 = (if notifyInput
                  then
                    let q1 = called (InputCommit event) p;
                        q2 = q1\<lparr>totalCommitted := totalCommitted q1 + 1\<rparr>;
                        q3 = q2\<lparr>totalSize := totalSize q2 + word_of_int (Size event)\<rparr>;
                        q4 = (if length (outSample q3) = 0 \<and> coin
                              then q3\<lparr>outSample := Encode d (Root event)\<rparr> else q3)
                    in (if Size event > maxSize q4 then q4\<lparr>maxSize := Size event\<rparr> else q4)
                  else p);
            p2 = called (StreamCommit event) p1
        in if \<not> backEvent then p2
           else
             let p3 = (if eventLogEnabled p2
                       then p2\<lparr>eventLog := eventLog p2 @ [Encode d (Root event)]\<rparr> else p2)
             in eventPool_back event p3)"

definition Commit :: "Deps \<Rightarrow> bool \<Rightarrow> Event \<Rightarrow> Pipeline \<Rightarrow> Pipeline" where
  "Commit d coin event p = finalize d coin event True True p"

subsection \<open>Stop\<close>

definition Stop :: "Pipeline \<Rightarrow> Pipeline" where
  "Stop p =
     (let p1 = called (Log InfoLevel) p;
          p2 = called (Log InfoLevel) p1;
          p3 = foldl (\<lambda>q processor. called (ProcessorStop processor) q) p2 (Procs p2);
          p4 = called StreamerStop p3;
          p5 = called (Log InfoLevel) p4;
          p6 = called InputStop p5;
          p7 = called (Log InfoLevel) p6;
          p8 = called OutputStop p7
      in (called SetShouldStop p8)\<lparr>shouldStop := True\<rparr>)"

text \<open>
  \<open>precedes a b cs\<close>: in the list of calls, \<open>a\<close> occurs, its first occurrence comes
  before every \<open>b\<close>, and \<open>b\<close> occurs after it.
\<close>

fun precedes :: "call \<Rightarrow> call \<Rightarrow> call list \<Rightarrow> bool" where
  "precedes a b [] = False"
| "precedes a b (c # cs) =
     (if c = a then b \<in> set cs else if c = b then False else precedes a b cs)"

subsection \<open>Worker growth: expandProcs and growProcs\<close>

text \<open>
  A processor is represented by the index at which it was appended to \<open>Procs\<close>.
  \<open>spawnProcs n\<close> is the loop of \<open>expandProcs\<close>: \<open>n\<close> times create a processor,
  append it and start it.
\<close>

fun spawnProcs :: "nat \<Rightarrow> Pipeline \<Rightarrow> Pipeline" where
  "spawnProcs 0 p = p"
| "spawnProcs (Suc n) p =
     spawnProcs n (called (ProcessorStart (length (Procs p)))
                     (p\<lparr>Procs := Procs p @ [length (Procs p)]\<rparr>))"

text \<open>
  \<open>expandProcs\<close>. \<open>from\<close> and \<open>to\<close> are 32-bit signed; the loop bound
  \<open>int(to-from)\<close> is the signed value of the 32-bit difference, and a bound that is not
  positive runs the loop zero times.
\<close>

definition expandProcs :: "Pipeline \<Rightarrow> Pipeline" where
  "expandProcs p =
     (if singleProc p then p
      else
        let from = procCount p;
            to = from * 2;
            p1 = called (Log InfoLevel) p;
            p2 = (if 10000 <s to then called (Log WarnLevel) p1 else p1);
            p3 = spawnProcs (nat (sint (to - from))) p2
        in p3\<lparr>procCount := to\<rparr>)"

text \<open>
  \<open>growProcs\<close> polls in a loop that only the stop flag ends. One round of the loop is
  one wake-up; it carries what the rest of the process did during the sleep (whether
  \<open>Stop\<close> set the flag, the number of active processors) and the two clock readings
  of the round in nanoseconds. The loop is run on a list of rounds: \<open>Exited\<close> when it
  returned, \<open>Running\<close> when the rounds are used up and it still loops.
\<close>

record round =
  stopSet :: bool
  active :: "32 word"
  now1 :: int
  now2 :: int

datatype 'a loop = Exited 'a | Running 'a


definition interval :: int where
  "interval = 100 * 1000000"

fun growProcs :: "round list \<Rightarrow> int \<Rightarrow> Pipeline \<Rightarrow> Pipeline loop" where
  "growProcs [] t p = Running p"
| "growProcs (r # rs) t p =
     (let p1 = p\<lparr>shouldStop := shouldStop p \<or> stopSet r, activeProcs := active r\<rparr>
      in if shouldStop p1 then Exited p1
         else
           let t1 = (if procCount p1 \<noteq> activeProcs p1 then now1 r else t);
               p2 = (if now2 r - t1 > interval then expandProcs p1 else p1)
           in growProcs rs t1 p2)"


text \<open>
  \<open>maintenance\<close>, on a list of rounds that say whether \<open>Stop\<close> set the flag during
  the sleep. The rates of the status line are only logged and are left out.
\<close>

fun maintenance :: "bool list \<Rightarrow> Pipeline \<Rightarrow> Pipeline loop" where
  "maintenance [] p = Running p"
| "maintenance (stopNow # rs) p =
     (let p1 = p\<lparr>shouldStop := shouldStop p \<or> stopNow\<rparr>
      in if shouldStop p1 then Exited p1
         else
           let p2 = called AntispamMaintenance p1;
               p3 = called MetricsMaintenance p2;
               p4 = called (Log InfoLevel) p3;
               p5 = (if length (inSample p4) > 0
                     then (called (Log InfoLevel) p4)\<lparr>inSample := []\<rparr> else p4);
               p6 = (if length (outSample p5) > 0
                     then (called (Log InfoLevel) p5)\<lparr>outSample := []\<rparr> else p5)
           in maintenance rs p6)"

section \<open>Output plugins: the flush functions\<close>

text \<open>
  plugin/output/splunk/splunk.go, \<open>out\<close>: the batch is encoded once and sent in a loop
  that ends only with a successful \<open>send\<close>. The answers of \<open>send\<close> are a function of
  the attempt number (an error message, or \<open>None\<close> for success). The loop may run for
  ever, so its result is an option: \<open>None\<close> when it never returns. The worker's
  buffer is only storage for the encoded batch and is not part of the model.
\<close>

partial_function (option) splunk_retry ::
  "(nat \<Rightarrow> string \<Rightarrow> string option) \<Rightarrow> string \<Rightarrow> nat \<Rightarrow> call list \<Rightarrow> call list option" where
  "splunk_retry send outBuf n cs =
     (case send n outBuf of
        Some err \<Rightarrow>
          splunk_retry send outBuf (Suc n)
            (cs @ [SplunkSend outBuf, Log ErrorLevel, Sleep 1000000000])
      | None \<Rightarrow> Some (cs @ [SplunkSend outBuf]))"

definition splunk_encode :: "(Node \<Rightarrow> string) \<Rightarrow> Event list \<Rightarrow> string" where
  "splunk_encode enc batch = concat (map (\<lambda>event. enc (JObject [(''event'', Root event)])) batch)"

definition splunk_out ::
  "(Node \<Rightarrow> string) \<Rightarrow> (nat \<Rightarrow> string \<Rightarrow> string option) \<Rightarrow> Event list \<Rightarrow> call list \<Rightarrow> call list option" where
  "splunk_out enc send batch cs = splunk_retry send (splunk_encode enc batch) 0 cs"

text \<open>
  plugin/output/file/file.go, \<open>out\<close> and \<open>write\<close>: every event is encoded and
  followed by a newline, and the buffer is written once; a failed write is fatal.
\<close>

definition file_write :: "(string \<Rightarrow> string option) \<Rightarrow> string \<Rightarrow> call list \<Rightarrow> unit outcome \<times> call list" where
  "file_write fileWrite data cs =
     (case fileWrite data of
        Some err \<Rightarrow> (Fatal, cs @ [FileWrite data, Log FatalLevel])
      | None \<Rightarrow> (Returns (), cs @ [FileWrite data]))"

definition file_encode :: "(Event \<Rightarrow> string) \<Rightarrow> Event list \<Rightarrow> string" where
  "file_encode enc batch = concat (map (\<lambda>event. enc event @ [CHR 0x0A]) batch)"

definition file_out ::
  "(Event \<Rightarrow> string) \<Rightarrow> (string \<Rightarrow> string option) \<Rightarrow> Event list \<Rightarrow> call list \<Rightarrow> unit outcome \<times> call list" where
  "file_out enc fileWrite batch cs = file_write fileWrite (file_encode enc batch) cs"

section \<open>The admin endpoints of an action\<close>

text \<open>
  The handlers write to an \<open>http.ResponseWriter\<close>. As net/http has it, the status
  line goes out once: the first \<open>Write\<close> sends status 200 when no \<open>WriteHeader\<close>
  came before it, and a \<open>WriteHeader\<close> after the status is out changes nothing.
  The body is the list of the values marshalled into it.
\<close>

datatype payload =
    ErrResp string
  | EventsResp "(string \<times> 64 word) list"
  | SampleResp string

record ResponseWriter =
  header :: "(string \<times> string) list"
  status :: "nat option"
  body :: "payload list"

definition StatusOK :: nat where
  "StatusOK = 200"

definition StatusBadRequest :: nat where
  "StatusBadRequest = 400"

definition StatusInternalServerError :: nat where
  "StatusInternalServerError = 500"

definition Header_Add :: "string \<Rightarrow> string \<Rightarrow> ResponseWriter \<Rightarrow> ResponseWriter" where
  "Header_Add k v w = w\<lparr>header := header w @ [(k, v)]\<rparr>"

definition WriteHeader :: "nat \<Rightarrow> ResponseWriter \<Rightarrow> ResponseWriter" where
  "WriteHeader code w = (case status w of None \<Rightarrow> w\<lparr>status := Some code\<rparr> | Some c \<Rightarrow> w)"

definition Write :: "payload \<Rightarrow> ResponseWriter \<Rightarrow> ResponseWriter" where
  "Write data w =
     (let w1 = (case status w of None \<Rightarrow> WriteHeader StatusOK w | Some c \<Rightarrow> w)
      in w1\<lparr>body := body w1 @ [data]\<rparr>)"

definition writeErr :: "string \<Rightarrow> ResponseWriter \<Rightarrow> ResponseWriter" where
  "writeErr err w = Write (ErrResp err) w"

text \<open>
  A metric of the metrics holder: its name and the counters of the current window.
  \<open>serveActionInfo\<close> dereferences the metric it looked up without a nil check, which
  panics when no metric has the name.
\<close>

record metrics =
  name :: string
  totalCounter :: "(string \<times> 64 word) list"

definition serveActionInfo ::
  "metrics list \<Rightarrow> string \<Rightarrow> ResponseWriter \<Rightarrow> unit outcome \<times> ResponseWriter" where
  "serveActionInfo ms MetricName w =
     (let w1 = Header_Add ''Content-Type'' ''application/json'' w
      in if MetricName = []
         then (Returns (),
               WriteHeader StatusBadRequest
                 (writeErr ''If you want to see a statistic about events, consider adding `metric_name` to the action's configuration.'' w1))
         else
           (case find (\<lambda>m. name m = MetricName) ms of
              None \<Rightarrow> (Panics, w1)
            | Some actionMetric \<Rightarrow>
                (Returns (),
                 Write (EventsResp
                          (map (\<lambda>st. (st, case map_of (totalCounter actionMetric) st of
                                              None \<Rightarrow> 0 | Some c \<Rightarrow> c))
                             [''received'', ''discarded'', ''passed''])) w1)))"

text \<open>
  \<open>serveActionSample\<close>. \<open>firstSample\<close> is what the \<open>select\<close> receives: the first
  sample a processor delivers within the five seconds, or \<open>None\<close> when the timer fires
  first.
\<close>

definition serveActionSample ::
  "Pipeline \<Rightarrow> string option \<Rightarrow> ResponseWriter \<Rightarrow> ResponseWriter" where
  "serveActionSample p firstSample w =
     (let w1 = Header_Add ''Content-Type'' ''application/json'' w
      in if activeProcs p \<le>s 0 \<or> procCount p \<le>s 0
         then WriteHeader StatusBadRequest (writeErr ''There are no active processors'' w1)
         else
           (case firstSample of
              Some s \<Rightarrow> Write (SampleResp s) w1
            | None \<Rightarrow>
                WriteHeader StatusInternalServerError
                  (writeErr ''Timeout while try to display an event before and after the action processing.'' w1)))"

section \<open>Concrete runs\<close>

text \<open>
  Values for running the definitions: collaborators for which nothing is spam and whose
  decoders accept only the empty object, an event, a started pipeline with two
  processors and a pool of two free events, and a response nothing was written to.
\<close>

definition run_deps :: Deps where
  "run_deps =
     \<lparr>isSpam = (\<lambda>sourceID sourceName isNewSource. False),
      parseJSON = (\<lambda>bytes. if bytes = ''{}'' then Inr (JObject []) else Inl ''wrong json''),
      DecodeCRI = (\<lambda>bytes. Inl ''wrong cri''),
      DecodePostgres = (\<lambda>bytes. Inl ''wrong postgres''),
      putEvent = (\<lambda>sourceID streamName event. SeqID event + 1),
      Encode = (\<lambda>root. ''{}'')\<rparr>"

definition run_event :: Event where
  "run_event =
     \<lparr>Root = JObject [(''log'', JString ''x''), (''stream'', JString ''A'')],
      SeqID = 7, SourceID = 3, SourceName = ''src'', Offset = 10, Size = 25,
      streamName = ''not_set'', kind = normal\<rparr>"

definition run_settings :: Settings where
  "run_settings =
     \<lparr>Decoder = ''json'', Capacity = 2, MaintenanceInterval = 5000000000,
      AntispamThreshold = 0, AvgLogSize = 16384, StreamField = ''stream'', IsStrict = False\<rparr>"

definition run_pipeline :: Pipeline where
  "run_pipeline =
     \<lparr>Name = ''test'', settings = run_settings, decoder = JSON, suggestedDecoder = NO,
      eventPool = [run_event, run_event\<lparr>SeqID := 8\<rparr>],
      useSpread = False, disableStreams = False, singleProc = False, shouldStop = False,
      Procs = [0, 1], procCount = 2, activeProcs = 0,
      eventLogEnabled = False, eventLog = [], inSample = [], outSample = [],
      totalCommitted = 0, totalSize = 0, maxSize = 0, calls = []\<rparr>"

definition run_writer :: ResponseWriter where
  "run_writer = \<lparr>header = [], status = None, body = []\<rparr>"

text \<open>
  A wake-up of \<open>growProcs\<close> that finds both processors active 300 ms after the loop
  started at time 0, and a \<open>send\<close> that fails twice before it succeeds.
\<close>

definition run_round :: round where
  "run_round = \<lparr>stopSet = False, active = 2, now1 = 300000000, now2 = 300000001\<rparr>"

definition run_send :: "nat \<Rightarrow> string \<Rightarrow> string option" where
  "run_send n data = (if n < 2 then Some ''timeout'' else None)"

section \<open>Properties\<close>

subsection \<open>Helper lemmas\<close>

lemma putEvents_append: "putEvents (xs @ ys) = putEvents xs @ putEvents ys"
  by (induction xs rule: putEvents.induct) simp_all

lemma finalize_fields:
  "\<not> IsTimeoutKind e \<Longrightarrow>
   calls (finalize d coin e True True p) = calls p @ [InputCommit e, StreamCommit e] \<and>
   totalCommitted (finalize d coin e True True p) = totalCommitted p + 1 \<and>
   totalSize (finalize d coin e True True p) = totalSize p + word_of_int (Size e) \<and>
   eventPool (finalize d coin e True True p) = eventPool p @ [e]"
  by (simp add: finalize_def called_def eventPool_back_def Let_def)

text \<open>
  A record that is neither empty nor spam, with a free event in the pool, reaches the
  decoder switch with that event checked out.
\<close>

lemma In_reaches_decoder:
  assumes "\<not> isEmpty bytes" "\<not> isSpam d sourceID sourceName isNewSource" "eventPool p = e # es"
  shows "In d sourceID sourceName offset bytes isNewSource p =
     (let p1 = (called (AntispamIsSpam sourceID sourceName isNewSource) p)\<lparr>eventPool := es\<rparr> in
      case selectedDecoder p of
         JSON \<Rightarrow>
           (case parseJSON d bytes of
              Inl err \<Rightarrow>
                (if IsStrict (settings p)
                 then (Fatal, called (Log FatalLevel) p1)
                 else (Returns 0, called (Log ErrorLevel) p1))
            | Inr root \<Rightarrow>
                In_stamp d sourceID sourceName offset bytes (e\<lparr>Root := root\<rparr>) p1)
       | RAW \<Rightarrow>
           In_stamp d sourceID sourceName offset bytes
             (e\<lparr>Root := JObject [(''message'', JString (butlast bytes))]\<rparr>) p1
       | CRI \<Rightarrow>
           (case DecodeCRI d bytes of
              Inl err \<Rightarrow> (Fatal, called (Log FatalLevel) p1)
            | Inr root \<Rightarrow>
                In_stamp d sourceID sourceName offset bytes (e\<lparr>Root := root\<rparr>) p1)
       | POSTGRES \<Rightarrow>
           (case DecodePostgres d bytes of
              Inl err \<Rightarrow> (Fatal, called (Log FatalLevel) p1)
            | Inr root \<Rightarrow>
                In_stamp d sourceID sourceName offset bytes (e\<lparr>Root := root\<rparr>) p1)
       | _ \<Rightarrow> (Panics, called (Log PanicLevel) p1))"
  using assms
  by (simp add: In_def eventPool_get_def called_def selectedDecoder_def Let_def)

text \<open>
  The divisor of the spread: a positive 32-bit count, sign-extended to 64 bits, is the
  count itself, so the remainder is the mathematical one.
\<close>

lemma uint_scast_pos:
  fixes c :: "32 word"
  assumes "0 <s c"
  shows "uint (scast c :: 64 word) = sint c"
proof -
  have pos: "0 < sint c" using assms by (simp add: word_sless_alt)
  have b: "sint c < 2 ^ 31" using sint_lt [of c] by simp
  have "(2::int) ^ 31 < 2 ^ 64" by simp
  with b have lt: "sint c < 2 ^ 64" by linarith
  have "uint (scast c :: 64 word) = uint (word_of_int (sint c) :: 64 word)"
    by (simp only: scast_eq)
  also have "\<dots> = sint c mod 2 ^ 64"
    by (simp only: uint_word_of_int len_num1 len_bit0 mult_numeral_1_right semiring_norm)
  also have "\<dots> = sint c" using pos lt by (simp only: mod_pos_pos_trivial order_less_imp_le)
  finally show ?thesis .
qed

lemma spread_source:
  fixes c :: "32 word" and s :: "64 word"
  assumes "0 <s c"
  shows "uint (s mod scast c) = uint s mod sint c"
  by (simp only: uint_mod_distrib uint_scast_pos [OF assms])

lemma streamEvent_enqueues:
  assumes "useSpread p \<longrightarrow> procCount p \<noteq> 0"
  shows "streamEvent d e p =
     (let e1 = (if useSpread p then e\<lparr>SourceID := SeqID e mod scast (procCount p)\<rparr> else e);
          e2 = (if disableStreams p then e1
                else case Dig (Root e) (StreamField (settings p)) of
                       Some node \<Rightarrow> e1\<lparr>streamName := AsString node\<rparr>
                     | None \<Rightarrow> e1)
      in (Returns (putEvent d (SourceID e2) (streamName e2) e2),
          called (StreamerPutEvent (SourceID e2) (streamName e2) e2) p))"
  using assms by (auto simp add: streamEvent_def Let_def)

lemma enqueued_called_put: "enqueued (called (StreamerPutEvent a b ev) p) = enqueued p @ [ev]"
  by (simp add: enqueued_def called_def putEvents_append)

lemma enqueued_streamEvent:
  assumes "useSpread p \<longrightarrow> procCount p \<noteq> 0"
  shows "enqueued (snd (streamEvent d e p)) = enqueued p @
     [(if useSpread p then e\<lparr>SourceID := SeqID e mod scast (procCount p)\<rparr> else e)
       \<lparr>streamName := (if disableStreams p then streamName e
                else case Dig (Root e) (StreamField (settings p)) of
                       Some node \<Rightarrow> AsString node
                     | None \<Rightarrow> streamName e)\<rparr>]"
  by (auto simp add: streamEvent_enqueues [OF assms] Let_def enqueued_called_put split: option.splits)

lemma returns_streamEvent:
  assumes "useSpread p \<longrightarrow> procCount p \<noteq> 0"
  shows "\<exists>n. fst (streamEvent d e p) = Returns n"
  by (simp add: streamEvent_enqueues [OF assms] Let_def)

lemma enqueued_In_stamp:
  assumes "useSpread p \<longrightarrow> procCount p \<noteq> 0"
  shows "map (\<lambda>ev. (Root ev, streamName ev)) (enqueued (snd (In_stamp d sourceID sourceName offset bytes e p))) =
     map (\<lambda>ev. (Root ev, streamName ev)) (enqueued p) @
     [(Root e, if disableStreams p then DefaultStreamName
                else case Dig (Root e) (StreamField (settings p)) of
                       Some node \<Rightarrow> AsString node
                     | None \<Rightarrow> DefaultStreamName)]"
proof -
  have en: "enqueued (p\<lparr>inSample := x\<rparr>) = enqueued p" for x by (simp add: enqueued_def)
  show ?thesis
    unfolding In_stamp_def Let_def
    using assms
    by (subst enqueued_streamEvent) (auto simp add: en split: option.splits)
qed

lemma returns_In_stamp:
  assumes "useSpread p \<longrightarrow> procCount p \<noteq> 0"
  shows "\<exists>n. fst (In_stamp d sourceID sourceName offset bytes e p) = Returns n"
  unfolding In_stamp_def Let_def using assms by (intro returns_streamEvent) simp

lemma In_decoded:
  assumes "\<not> isEmpty bytes" "\<not> isSpam d sourceID sourceName isNewSource" "eventPool p = e # es"
    and "decodesTo d p bytes root"
  shows "In d sourceID sourceName offset bytes isNewSource p =
         In_stamp d sourceID sourceName offset bytes (e\<lparr>Root := root\<rparr>)
           ((called (AntispamIsSpam sourceID sourceName isNewSource) p)\<lparr>eventPool := es\<rparr>)"
  using assms(4)
  by (simp add: In_reaches_decoder [OF assms(1-3)] decodesTo_def Let_def split: DecoderType.splits)

lemma enqueued_In:
  assumes "\<not> isEmpty bytes" "\<not> isSpam d sourceID sourceName isNewSource" "eventPool p \<noteq> []"
    and "decodesTo d p bytes root"
    and "useSpread p \<longrightarrow> procCount p \<noteq> 0"
  shows "map (\<lambda>ev. (Root ev, streamName ev)) (enqueued (snd (In d sourceID sourceName offset bytes isNewSource p))) =
     map (\<lambda>ev. (Root ev, streamName ev)) (enqueued p) @
     [(root, if disableStreams p then DefaultStreamName
                else case Dig root (StreamField (settings p)) of
                       Some node \<Rightarrow> AsString node
                     | None \<Rightarrow> DefaultStreamName)]"
    and "\<exists>n. fst (In d sourceID sourceName offset bytes isNewSource p) = Returns n"
proof -
  from assms(3) obtain e es where pool: "eventPool p = e # es" by (cases "eventPool p") auto
  let ?p1 = "(called (AntispamIsSpam sourceID sourceName isNewSource) p)\<lparr>eventPool := es\<rparr>"
  have sp: "useSpread ?p1 \<longrightarrow> procCount ?p1 \<noteq> 0" using assms(5) by (simp add: called_def)
  have en: "enqueued ?p1 = enqueued p" by (simp add: enqueued_def called_def putEvents_append)
  show "map (\<lambda>ev. (Root ev, streamName ev)) (enqueued (snd (In d sourceID sourceName offset bytes isNewSource p))) =
     map (\<lambda>ev. (Root ev, streamName ev)) (enqueued p) @
     [(root, if disableStreams p then DefaultStreamName
                else case Dig root (StreamField (settings p)) of
                       Some node \<Rightarrow> AsString node
                     | None \<Rightarrow> DefaultStreamName)]"
    by (simp add: In_decoded [OF assms(1,2) pool assms(4)] enqueued_In_stamp [OF sp] en)
      (simp add: called_def)
  show "\<exists>n. fst (In d sourceID sourceName offset bytes isNewSource p) = Returns n"
    by (simp only: In_decoded [OF assms(1,2) pool assms(4)] returns_In_stamp [OF sp])
qed

text \<open>Stop and the two loops.\<close>

lemma called_sel:
  "calls (called c p) = calls p @ [c]"
  "Procs (called c p) = Procs p"
  "procCount (called c p) = procCount p"
  "singleProc (called c p) = singleProc p"
  by (simp_all add: called_def)

lemma calls_foldl_stop:
  "calls (foldl (\<lambda>q processor. called (ProcessorStop processor) q) q xs) =
     calls q @ map ProcessorStop xs"
  by (induction xs arbitrary: q) (simp_all add: called_def)

lemma Stop_calls:
  "calls (Stop p) = calls p @ [Log InfoLevel, Log InfoLevel] @ map ProcessorStop (Procs p) @
     [StreamerStop, Log InfoLevel, InputStop, Log InfoLevel, OutputStop, SetShouldStop]"
  by (simp add: Stop_def Let_def calls_foldl_stop called_sel)

lemma Stop_shouldStop: "shouldStop (Stop p)"
  by (simp add: Stop_def Let_def)

lemma growProcs_stopped:
  "shouldStop p \<or> stopSet r \<Longrightarrow>
   growProcs (r # rs) t p = Exited (p\<lparr>shouldStop := True, activeProcs := active r\<rparr>)"
  by (auto simp add: Let_def)

lemma maintenance_stopped:
  "shouldStop p \<or> stopNow \<Longrightarrow> maintenance (stopNow # rs) p = Exited (p\<lparr>shouldStop := True\<rparr>)"
  by (auto simp add: Let_def)

text \<open>
  The retry loop of the splunk output: it returns at the first attempt that succeeds,
  and it returns only if some attempt succeeds.
\<close>

lemma splunk_retry_succeeds:
  "(\<forall>i<k. send (n + i) outBuf \<noteq> None) \<Longrightarrow> send (n + k) outBuf = None \<Longrightarrow>
   splunk_retry send outBuf n cs =
     Some (cs @ concat (replicate k [SplunkSend outBuf, Log ErrorLevel, Sleep 1000000000]) @
           [SplunkSend outBuf])"
proof (induction k arbitrary: n cs)
  case 0
  then show ?case by (subst splunk_retry.simps) simp
next
  case (Suc k)
  from Suc.prems(1) have "send (n + 0) outBuf \<noteq> None" by blast
  then obtain err where err: "send n outBuf = Some err" by auto
  have a: "\<forall>i<k. send (Suc n + i) outBuf \<noteq> None"
  proof (intro allI impI)
    fix i assume "i < k"
    then have "Suc i < Suc k" by simp
    with Suc.prems(1) have "send (n + Suc i) outBuf \<noteq> None" by blast
    then show "send (Suc n + i) outBuf \<noteq> None" by simp
  qed
  have b: "send (Suc n + k) outBuf = None" using Suc.prems(2) by simp
  show ?case
    by (subst splunk_retry.simps) (simp add: err Suc.IH [OF a b])
qed

lemma splunk_retry_returns_after_success:
  assumes "splunk_retry send outBuf n cs = Some r"
  shows "\<exists>k. send (n + k) outBuf = None"
proof (rule splunk_retry.raw_induct
    [where P = "\<lambda>send outBuf n cs r. \<exists>k. send (n + k) outBuf = None", OF _ assms])
  fix f :: "(nat \<Rightarrow> string \<Rightarrow> string option) \<Rightarrow> string \<Rightarrow> nat \<Rightarrow> call list \<Rightarrow> call list option"
  fix send outBuf n cs r
  assume IH: "\<And>send outBuf n cs r. f send outBuf n cs = Some r \<Longrightarrow> \<exists>k. send (n + k) outBuf = None"
  assume eq: "(case send n outBuf of
                 None \<Rightarrow> Some (cs @ [SplunkSend outBuf])
               | Some err \<Rightarrow>
                   f send outBuf (Suc n)
                     (cs @ [SplunkSend outBuf, Log ErrorLevel, Sleep 1000000000])) = Some r"
  show "\<exists>k. send (n + k) outBuf = None"
  proof (cases "send n outBuf")
    case None
    then have "send (n + 0) outBuf = None" by simp
    then show ?thesis by blast
  next
    case (Some err)
    with eq have "f send outBuf (Suc n)
        (cs @ [SplunkSend outBuf, Log ErrorLevel, Sleep 1000000000]) = Some r"
      by simp
    from IH [OF this] obtain k where "send (Suc n + k) outBuf = None" by blast
    then have "send (n + Suc k) outBuf = None" by simp
    then show ?thesis by blast
  qed
qed

lemma splunk_retry_forever:
  assumes "\<forall>i. send (n + i) outBuf \<noteq> None"
  shows "splunk_retry send outBuf n cs = None"
proof (cases "splunk_retry send outBuf n cs")
  case None
  then show ?thesis .
next
  case (Some r)
  from splunk_retry_returns_after_success [OF this] assms show ?thesis by blast
qed











text \<open>The fields of the values of the concrete runs.\<close>

lemma run_pipeline_sel:
  "settings run_pipeline = run_settings"
  "decoder run_pipeline = JSON"
  "suggestedDecoder run_pipeline = NO"
  "eventPool run_pipeline = [run_event, run_event\<lparr>SeqID := 8\<rparr>]"
  "useSpread run_pipeline = False"
  "disableStreams run_pipeline = False"
  "singleProc run_pipeline = False"
  "shouldStop run_pipeline = False"
  "Procs run_pipeline = [0, 1]"
  "procCount run_pipeline = 2"
  "activeProcs run_pipeline = 0"
  "inSample run_pipeline = []"
  "outSample run_pipeline = []"
  "totalCommitted run_pipeline = 0"
  "totalSize run_pipeline = 0"
  "calls run_pipeline = []"
  by (simp_all add: run_pipeline_def)

lemma run_settings_sel:
  "StreamField run_settings = ''stream''"
  "IsStrict run_settings = False"
  by (simp_all add: run_settings_def)

lemma run_event_sel:
  "Root run_event = JObject [(''log'', JString ''x''), (''stream'', JString ''A'')]"
  "SeqID run_event = 7"
  "SourceID run_event = 3"
  "Size run_event = 25"
  "streamName run_event = ''not_set''"
  "kind run_event = normal"
  by (simp_all add: run_event_def)

lemma run_deps_sel:
  "isSpam run_deps a b c = False"
  "parseJSON run_deps bytes = (if bytes = ''{}'' then Inr (JObject []) else Inl ''wrong json'')"
  "DecodeCRI run_deps bytes = Inl ''wrong cri''"
  "DecodePostgres run_deps bytes = Inl ''wrong postgres''"
  "putEvent run_deps a sn ev = SeqID ev + 1"
  "Encode run_deps root = ''{}''"
  by (simp_all add: run_deps_def)

lemma enqueued_run_pipeline: "enqueued (run_pipeline\<lparr>decoder := dec\<rparr>) = []"
  "enqueued run_pipeline = []"
  by (simp_all add: enqueued_def run_pipeline_sel)

subsection \<open>Commit\<close>

text \<open>
  Claim C2. For an event of normal kind, \<open>Commit\<close> calls the input plugin's
  \<open>Commit\<close> with the event (and then the commit of the event's stream, and nothing
  else), adds one to \<open>totalCommitted\<close> and the event's size to \<open>totalSize\<close> (both
  64-bit counters), and releases the event to the pool, whose free count grows by one.
\<close>

theorem Commit_normal:
  assumes "kind e = normal"
  shows "calls (Commit d coin e p) = calls p @ [InputCommit e, StreamCommit e] \<and>
         totalCommitted (Commit d coin e p) = totalCommitted p + 1 \<and>
         totalSize (Commit d coin e p) = totalSize p + word_of_int (Size e) \<and>
         eventPool (Commit d coin e p) = eventPool p @ [e] \<and>
         freeEventsCount (Commit d coin e p) = freeEventsCount p + 1"
proof -
  from assms have nt: "\<not> IsTimeoutKind e" by (simp add: IsTimeoutKind_def)
  from finalize_fields [OF nt, of d coin p] show ?thesis
    by (simp add: Commit_def freeEventsCount_def)
qed

theorem Commit_normal_witness:
  "kind run_event = normal \<and>
   calls (Commit run_deps True run_event run_pipeline) =
     [InputCommit run_event, StreamCommit run_event] \<and>
   totalCommitted (Commit run_deps True run_event run_pipeline) = 1 \<and>
   totalSize (Commit run_deps True run_event run_pipeline) = 25 \<and>
   freeEventsCount (Commit run_deps True run_event run_pipeline) = 3"
  using Commit_normal [of run_event run_deps True run_pipeline]
  by (simp add: run_event_def run_pipeline_def freeEventsCount_def)

subsection \<open>Decode failures at intake\<close>

text \<open>
  Claim C10. When the JSON decoder rejects a record and the pipeline is not strict,
  \<open>In\<close> returns 0 after the antispam check and one error log and nothing else: no
  event is handed to the streamer, and the event taken from the pool is not released,
  so the pool is left with one free event less.
\<close>

theorem In_json_failure_keeps_event:
  assumes "\<not> isEmpty bytes"
    and "\<not> isSpam d sourceID sourceName isNewSource"
    and "eventPool p \<noteq> []"
    and "selectedDecoder p = JSON"
    and "parseJSON d bytes = Inl err"
    and "\<not> IsStrict (settings p)"
  shows "fst (In d sourceID sourceName offset bytes isNewSource p) = Returns 0 \<and>
         calls (snd (In d sourceID sourceName offset bytes isNewSource p)) =
           calls p @ [AntispamIsSpam sourceID sourceName isNewSource, Log ErrorLevel] \<and>
         enqueued (snd (In d sourceID sourceName offset bytes isNewSource p)) = enqueued p \<and>
         eventPool (snd (In d sourceID sourceName offset bytes isNewSource p)) = tl (eventPool p) \<and>
         freeEventsCount (snd (In d sourceID sourceName offset bytes isNewSource p)) + 1 =
           freeEventsCount p"
proof -
  from assms(3) obtain e es where pool: "eventPool p = e # es" by (cases "eventPool p") auto
  show ?thesis
    using assms(4-6) pool
    by (simp add: In_reaches_decoder [OF assms(1,2) pool] called_def enqueued_def
        putEvents_append freeEventsCount_def)
qed

theorem In_json_failure_keeps_event_witness:
  "\<not> isEmpty ''not json'' \<and>
   fst (In run_deps 3 ''src'' 10 ''not json'' False run_pipeline) = Returns 0 \<and>
   calls (snd (In run_deps 3 ''src'' 10 ''not json'' False run_pipeline)) =
     [AntispamIsSpam 3 ''src'' False, Log ErrorLevel] \<and>
   freeEventsCount run_pipeline = 2 \<and>
   freeEventsCount (snd (In run_deps 3 ''src'' 10 ''not json'' False run_pipeline)) = 1"
  using In_json_failure_keeps_event
    [of "''not json''" run_deps 3 "''src''" False run_pipeline "''wrong json''" 10]
  by (simp add: isEmpty_def run_deps_def run_pipeline_def run_settings_def selectedDecoder_def
      freeEventsCount_def)

text \<open>
  Claim C1, on the CRI and Postgres decoders. When one of them rejects a record, \<open>In\<close>
  logs at fatal level and the process ends, whatever \<open>IsStrict\<close> says: only the JSON
  branch looks at the flag. The concrete run below is a pipeline that is not strict.
\<close>

theorem In_cri_postgres_failure_fatal:
  assumes "\<not> isEmpty bytes"
    and "\<not> isSpam d sourceID sourceName isNewSource"
    and "eventPool p \<noteq> []"
    and "selectedDecoder p = CRI \<and> DecodeCRI d bytes = Inl err \<or>
         selectedDecoder p = POSTGRES \<and> DecodePostgres d bytes = Inl err"
  shows "fst (In d sourceID sourceName offset bytes isNewSource p) = Fatal \<and>
         calls (snd (In d sourceID sourceName offset bytes isNewSource p)) =
           calls p @ [AntispamIsSpam sourceID sourceName isNewSource, Log FatalLevel]"
proof -
  from assms(3) obtain e es where pool: "eventPool p = e # es" by (cases "eventPool p") auto
  show ?thesis
    using assms(4)
    by (auto simp add: In_reaches_decoder [OF assms(1,2) pool] called_def)
qed

theorem In_cri_postgres_failure_fatal_witness:
  "\<not> IsStrict (settings (run_pipeline\<lparr>decoder := CRI\<rparr>)) \<and>
   DecodeCRI run_deps ''not cri'' = Inl ''wrong cri'' \<and>
   fst (In run_deps 3 ''src'' 10 ''not cri'' False (run_pipeline\<lparr>decoder := CRI\<rparr>)) = Fatal"
proof -
  let ?p = "run_pipeline\<lparr>decoder := CRI\<rparr>"
  have ne: "\<not> isEmpty ''not cri''" by (simp add: isEmpty_def)
  have sp: "\<not> isSpam run_deps 3 ''src'' False" by (simp add: run_deps_sel)
  have pool: "eventPool ?p \<noteq> []" by (simp add: run_pipeline_sel)
  have dec: "selectedDecoder ?p = CRI \<and> DecodeCRI run_deps ''not cri'' = Inl ''wrong cri'' \<or>
         selectedDecoder ?p = POSTGRES \<and> DecodePostgres run_deps ''not cri'' = Inl ''wrong cri''"
    by (simp add: selectedDecoder_def run_deps_sel)
  from In_cri_postgres_failure_fatal [OF ne sp pool dec, of 10] show ?thesis
    by (simp add: run_pipeline_sel run_settings_sel run_deps_sel)
qed

subsection \<open>The raw decoder\<close>

text \<open>
  Claim C8, as amended. For a record that is not empty, not spam and finds a free event,
  the raw decoder makes \<open>In\<close> hand to the streamer a fresh object whose single field
  \<open>message\<close> holds the record's bytes without the last one (the newline of a
  newline-terminated record), provided the spread does not divide by zero.
\<close>

theorem In_raw_message:
  assumes "\<not> isEmpty bytes"
    and "\<not> isSpam d sourceID sourceName isNewSource"
    and "eventPool p \<noteq> []"
    and "selectedDecoder p = RAW"
    and "useSpread p \<longrightarrow> procCount p \<noteq> 0"
  shows "(\<exists>n. fst (In d sourceID sourceName offset bytes isNewSource p) = Returns n) \<and>
         map Root (enqueued (snd (In d sourceID sourceName offset bytes isNewSource p))) =
           map Root (enqueued p) @ [JObject [(''message'', JString (butlast bytes))]]"
proof -
  have dec: "decodesTo d p bytes (JObject [(''message'', JString (butlast bytes))])"
    using assms(4) by (simp add: decodesTo_def)
  have "map fst (map (\<lambda>ev. (Root ev, streamName ev))
          (enqueued (snd (In d sourceID sourceName offset bytes isNewSource p)))) =
        map fst (map (\<lambda>ev. (Root ev, streamName ev)) (enqueued p)) @
          [JObject [(''message'', JString (butlast bytes))]]"
    by (simp only: enqueued_In(1) [OF assms(1-3) dec assms(5)] map_append list.map fst_conv)
  then have "map Root (enqueued (snd (In d sourceID sourceName offset bytes isNewSource p))) =
           map Root (enqueued p) @ [JObject [(''message'', JString (butlast bytes))]]"
    by (simp add: comp_def)
  with enqueued_In(2) [OF assms(1-3) dec assms(5)] show ?thesis by simp
qed

theorem In_raw_message_witness:
  "\<not> isEmpty (''hi'' @ [CHR 0x0A]) \<and>
   map Root (enqueued (snd (In run_deps 3 ''src'' 10 (''hi'' @ [CHR 0x0A]) False
      (run_pipeline\<lparr>decoder := RAW\<rparr>)))) = [JObject [(''message'', JString ''hi'')]]"
proof -
  let ?p = "run_pipeline\<lparr>decoder := RAW\<rparr>"
  have ne: "\<not> isEmpty (''hi'' @ [CHR 0x0A])" by (simp add: isEmpty_def)
  have sp: "\<not> isSpam run_deps 3 ''src'' False" by (simp add: run_deps_sel)
  have pool: "eventPool ?p \<noteq> []" by (simp add: run_pipeline_sel)
  have dec: "selectedDecoder ?p = RAW" by (simp add: selectedDecoder_def)
  have us: "useSpread ?p \<longrightarrow> procCount ?p \<noteq> 0" by (simp add: run_pipeline_sel)
  from In_raw_message [OF ne sp pool dec us, of 10] ne show ?thesis
    by (simp add: enqueued_run_pipeline)
qed

text \<open>
  Claim C8 as stated fails: for the two-byte record \<open>ab\<close> the field \<open>message\<close> holds
  \<open>a\<close>, not the record's bytes.
\<close>

theorem In_raw_message_counterexample:
  "map Root (enqueued (snd (In run_deps 3 ''src'' 10 ''ab'' False (run_pipeline\<lparr>decoder := RAW\<rparr>)))) =
     [JObject [(''message'', JString ''a'')]] \<and>
   map Root (enqueued (snd (In run_deps 3 ''src'' 10 ''ab'' False (run_pipeline\<lparr>decoder := RAW\<rparr>)))) \<noteq>
     [JObject [(''message'', JString ''ab'')]]"
proof -
  let ?p = "run_pipeline\<lparr>decoder := RAW\<rparr>"
  have dec: "decodesTo run_deps ?p ''ab'' (JObject [(''message'', JString ''a'')])"
    by (simp add: decodesTo_def selectedDecoder_def run_pipeline_sel)
  have ne: "\<not> isEmpty ''ab''" by (simp add: isEmpty_def)
  have sp: "\<not> isSpam run_deps 3 ''src'' False" by (simp add: run_deps_sel)
  have pool: "eventPool ?p \<noteq> []" by (simp add: run_pipeline_sel)
  have us: "useSpread ?p \<longrightarrow> procCount ?p \<noteq> 0" by (simp add: run_pipeline_sel)
  have "map fst (map (\<lambda>ev. (Root ev, streamName ev))
          (enqueued (snd (In run_deps 3 ''src'' 10 ''ab'' False ?p)))) =
        [JObject [(''message'', JString ''a'')]]"
    by (simp only: enqueued_In(1) [OF ne sp pool dec us] enqueued_run_pipeline map_append
        list.map fst_conv append_Nil)
  then have "map Root (enqueued (snd (In run_deps 3 ''src'' 10 ''ab'' False ?p))) =
        [JObject [(''message'', JString ''a'')]]"
    by (simp add: comp_def)
  then show ?thesis by simp
qed

subsection \<open>Stream names and the spread\<close>

text \<open>
  Claim C3, as amended. With streams enabled, the stream name of the event handed to the
  streamer is the string value of the document's \<open>StreamField\<close> when the document has
  that field (also when the value is empty), and the default name \<open>not_set\<close> that
  \<open>In\<close> stamped when it has not; with streams disabled the field is not read and the
  event keeps the default name. \<open>streamEvent\<close> itself leaves the name it was given
  where \<open>In\<close> has the default.
\<close>

theorem stream_name_of_event:
  assumes "\<not> isEmpty bytes"
    and "\<not> isSpam d sourceID sourceName isNewSource"
    and "eventPool p \<noteq> []"
    and "decodesTo d p bytes root"
    and "useSpread p \<longrightarrow> procCount p \<noteq> 0"
  shows "map streamName (enqueued (snd (In d sourceID sourceName offset bytes isNewSource p))) =
           map streamName (enqueued p) @
             [if disableStreams p then DefaultStreamName
              else case Dig root (StreamField (settings p)) of
                     Some node \<Rightarrow> AsString node
                   | None \<Rightarrow> DefaultStreamName] \<and>
         map streamName (enqueued (snd (streamEvent d e p))) =
           map streamName (enqueued p) @
             [if disableStreams p then streamName e
              else case Dig (Root e) (StreamField (settings p)) of
                     Some node \<Rightarrow> AsString node
                   | None \<Rightarrow> streamName e] \<and>
         DefaultStreamName = ''not_set''"
proof -
  have "map snd (map (\<lambda>ev. (Root ev, streamName ev))
          (enqueued (snd (In d sourceID sourceName offset bytes isNewSource p)))) =
        map snd (map (\<lambda>ev. (Root ev, streamName ev)) (enqueued p)) @
          [if disableStreams p then DefaultStreamName
              else case Dig root (StreamField (settings p)) of
                     Some node \<Rightarrow> AsString node
                   | None \<Rightarrow> DefaultStreamName]"
    by (simp only: enqueued_In(1) [OF assms] map_append list.map snd_conv)
  then have a: "map streamName (enqueued (snd (In d sourceID sourceName offset bytes isNewSource p))) =
           map streamName (enqueued p) @
             [if disableStreams p then DefaultStreamName
              else case Dig root (StreamField (settings p)) of
                     Some node \<Rightarrow> AsString node
                   | None \<Rightarrow> DefaultStreamName]"
    by (simp add: comp_def)
  have b: "map streamName (enqueued (snd (streamEvent d e p))) =
           map streamName (enqueued p) @
             [if disableStreams p then streamName e
              else case Dig (Root e) (StreamField (settings p)) of
                     Some node \<Rightarrow> AsString node
                   | None \<Rightarrow> streamName e]"
    by (simp add: enqueued_streamEvent [OF assms(5)])
  from a b show ?thesis by (simp add: DefaultStreamName_def)
qed

theorem stream_name_of_event_witness:
  "decodesTo run_deps run_pipeline ''{}'' (JObject []) \<and>
   map streamName (enqueued (snd (In run_deps 3 ''src'' 10 ''{}'' False run_pipeline))) = [''not_set''] \<and>
   map streamName (enqueued (snd (streamEvent run_deps run_event run_pipeline))) = [''A'']"
proof -
  have ne: "\<not> isEmpty ''{}''" by (simp add: isEmpty_def)
  have sp: "\<not> isSpam run_deps 3 ''src'' False" by (simp add: run_deps_sel)
  have pool: "eventPool run_pipeline \<noteq> []" by (simp add: run_pipeline_sel)
  have dec: "decodesTo run_deps run_pipeline ''{}'' (JObject [])"
    by (simp add: decodesTo_def selectedDecoder_def run_pipeline_sel run_deps_sel)
  have us: "useSpread run_pipeline \<longrightarrow> procCount run_pipeline \<noteq> 0"
    by (simp add: run_pipeline_sel)
  from stream_name_of_event [OF ne sp pool dec us, of 10 run_event] dec show ?thesis
    by (simp add: enqueued_run_pipeline run_pipeline_sel run_settings_sel run_event_sel
        DefaultStreamName_def)
qed

text \<open>
  Claim C3 as stated fails: an event whose document has the stream field with the empty
  string as value goes to the streamer with the empty stream name, not with
  \<open>not_set\<close>.
\<close>

theorem streamEvent_empty_name_counterexample:
  "streamName (run_event\<lparr>Root := JObject [(''stream'', JString [])]\<rparr>) = DefaultStreamName \<and>
   map streamName (enqueued (snd (streamEvent run_deps
      (run_event\<lparr>Root := JObject [(''stream'', JString [])]\<rparr>) run_pipeline))) = [[]] \<and>
   map streamName (enqueued (snd (streamEvent run_deps
      (run_event\<lparr>Root := JObject [(''stream'', JString [])]\<rparr>) run_pipeline))) \<noteq> [''not_set'']"
proof -
  have us: "useSpread run_pipeline \<longrightarrow> procCount run_pipeline \<noteq> 0"
    by (simp add: run_pipeline_sel)
  have "map streamName (enqueued (snd (streamEvent run_deps
      (run_event\<lparr>Root := JObject [(''stream'', JString [])]\<rparr>) run_pipeline))) = [[]]"
    by (simp add: enqueued_streamEvent [OF us] run_pipeline_sel run_settings_sel
        enqueued_run_pipeline)
  then show ?thesis by (simp add: run_event_sel DefaultStreamName_def)
qed

text \<open>
  Claim C4. With \<open>UseSpread\<close> on and a positive processor count, the event that
  \<open>streamEvent\<close> hands to the streamer (and the source id it passes along) has its
  \<open>SourceID\<close> replaced by \<open>SeqID mod procCount\<close>; the sequence id and the
  document are untouched.
\<close>

theorem streamEvent_spread:
  assumes "useSpread p" and "0 <s procCount p"
  shows "\<exists>ev. fst (streamEvent d e p) = Returns (putEvent d (SourceID ev) (streamName ev) ev) \<and>
              snd (streamEvent d e p) = called (StreamerPutEvent (SourceID ev) (streamName ev) ev) p \<and>
              SeqID ev = SeqID e \<and> Root ev = Root e \<and>
              SourceID ev = SeqID e mod scast (procCount p) \<and>
              uint (SourceID ev) = uint (SeqID e) mod sint (procCount p)"
proof -
  from assms(2) have nz: "procCount p \<noteq> 0" by auto
  then have ok: "useSpread p \<longrightarrow> procCount p \<noteq> 0" by simp
  let ?ev = "(e\<lparr>SourceID := SeqID e mod scast (procCount p)\<rparr>)
       \<lparr>streamName := (if disableStreams p then streamName e
                else case Dig (Root e) (StreamField (settings p)) of
                       Some node \<Rightarrow> AsString node
                     | None \<Rightarrow> streamName e)\<rparr>"
  have "fst (streamEvent d e p) = Returns (putEvent d (SourceID ?ev) (streamName ?ev) ?ev) \<and>
        snd (streamEvent d e p) = called (StreamerPutEvent (SourceID ?ev) (streamName ?ev) ?ev) p \<and>
        SeqID ?ev = SeqID e \<and> Root ?ev = Root e \<and>
        SourceID ?ev = SeqID e mod scast (procCount p) \<and>
        uint (SourceID ?ev) = uint (SeqID e) mod sint (procCount p)"
    using assms(1) spread_source [OF assms(2), of "SeqID e"]
    by (auto simp add: streamEvent_enqueues [OF ok] Let_def split: option.splits)
  then show ?thesis by (rule exI [of _ ?ev])
qed

theorem streamEvent_spread_witness:
  "useSpread (run_pipeline\<lparr>useSpread := True\<rparr>) \<and>
   0 <s procCount (run_pipeline\<lparr>useSpread := True\<rparr>) \<and>
   (\<exists>ev. snd (streamEvent run_deps run_event (run_pipeline\<lparr>useSpread := True\<rparr>)) =
           called (StreamerPutEvent (SourceID ev) (streamName ev) ev)
             (run_pipeline\<lparr>useSpread := True\<rparr>) \<and>
         SeqID ev = 7 \<and> uint (SourceID ev) = 1)"
proof -
  let ?p = "run_pipeline\<lparr>useSpread := True\<rparr>"
  have h1: "useSpread ?p" by simp
  have h2: "0 <s procCount ?p" by (simp add: run_pipeline_sel word_sless_alt)
  have m: "uint (SeqID run_event) mod sint (procCount ?p) = 1"
    by (simp add: run_pipeline_sel run_event_sel)
  from streamEvent_spread [OF h1 h2, of run_deps run_event] obtain ev where
    "snd (streamEvent run_deps run_event ?p) =
       called (StreamerPutEvent (SourceID ev) (streamName ev) ev) ?p"
    "SeqID ev = SeqID run_event"
    "uint (SourceID ev) = uint (SeqID run_event) mod sint (procCount ?p)"
    by blast
  with m have "snd (streamEvent run_deps run_event ?p) =
       called (StreamerPutEvent (SourceID ev) (streamName ev) ev) ?p \<and>
     SeqID ev = 7 \<and> uint (SourceID ev) = 1"
    by (simp add: run_event_sel)
  then have "\<exists>ev. snd (streamEvent run_deps run_event ?p) =
       called (StreamerPutEvent (SourceID ev) (streamName ev) ev) ?p \<and>
     SeqID ev = 7 \<and> uint (SourceID ev) = 1" by (rule exI)
  with h1 h2 show ?thesis by simp
qed

subsection \<open>Worker growth\<close>




subsection \<open>Failed sends of the outputs\<close>

text \<open>
  Claim C6, as amended. The flush function of the splunk output sends the same encoded
  batch again and again, logging the error and sleeping one second after every failure,
  and returns right after the first successful send; if no send ever succeeds it never
  returns. The flush function of the file output does not retry: a failed write is
  logged at fatal level and ends the process.
\<close>

theorem flush_on_send_failure:
  "((\<forall>i<k. send i (splunk_encode enc batch) \<noteq> None) \<and> send k (splunk_encode enc batch) = None \<longrightarrow>
      splunk_out enc send batch cs =
        Some (cs @ concat (replicate k [SplunkSend (splunk_encode enc batch), Log ErrorLevel,
                                         Sleep 1000000000]) @
              [SplunkSend (splunk_encode enc batch)])) \<and>
   ((\<forall>i. send i (splunk_encode enc batch) \<noteq> None) \<longrightarrow> splunk_out enc send batch cs = None) \<and>
   (fileWrite (file_encode fenc batch) = Some err \<longrightarrow>
      file_out fenc fileWrite batch cs =
        (Fatal, cs @ [FileWrite (file_encode fenc batch), Log FatalLevel]))"
proof -
  have a: "(\<forall>i<k. send i (splunk_encode enc batch) \<noteq> None) \<and> send k (splunk_encode enc batch) = None \<longrightarrow>
      splunk_out enc send batch cs =
        Some (cs @ concat (replicate k [SplunkSend (splunk_encode enc batch), Log ErrorLevel,
                                         Sleep 1000000000]) @
              [SplunkSend (splunk_encode enc batch)])"
    using splunk_retry_succeeds [of k send 0 "splunk_encode enc batch" cs]
    by (simp add: splunk_out_def)
  have b: "(\<forall>i. send i (splunk_encode enc batch) \<noteq> None) \<longrightarrow> splunk_out enc send batch cs = None"
    using splunk_retry_forever [of send 0 "splunk_encode enc batch" cs]
    by (simp add: splunk_out_def)
  have c: "fileWrite (file_encode fenc batch) = Some err \<longrightarrow>
      file_out fenc fileWrite batch cs =
        (Fatal, cs @ [FileWrite (file_encode fenc batch), Log FatalLevel])"
    by (simp add: file_out_def file_write_def)
  from a b c show ?thesis by blast
qed

theorem flush_on_send_failure_witness:
  "run_send 2 (splunk_encode (Encode run_deps) [run_event]) = None \<and>
   splunk_out (Encode run_deps) run_send [run_event] [] =
     Some [SplunkSend ''{}'', Log ErrorLevel, Sleep 1000000000,
           SplunkSend ''{}'', Log ErrorLevel, Sleep 1000000000, SplunkSend ''{}''] \<and>
   splunk_out (Encode run_deps) (\<lambda>n data. Some ''refused'') [run_event] [] = None \<and>
   file_out (\<lambda>event. Encode run_deps (Root event)) (\<lambda>data. Some ''no space left on device'')
     [run_event] [] = (Fatal, [FileWrite (''{}'' @ [CHR 0x0A]), Log FatalLevel])"
proof -
  have e: "splunk_encode (Encode run_deps) [run_event] = ''{}''"
    by (simp add: splunk_encode_def run_deps_sel)
  have f: "file_encode (\<lambda>event. Encode run_deps (Root event)) [run_event] = ''{}'' @ [CHR 0x0A]"
    by (simp add: file_encode_def run_deps_sel)
  have r: "replicate 2 x = [x, x]" for x :: "call list" by (simp add: numeral_2_eq_2)
  from flush_on_send_failure [where k = 2 and send = run_send and enc = "Encode run_deps"
      and batch = "[run_event]" and cs = "[]"
      and fileWrite = "\<lambda>data. Some ''no space left on device''"
      and fenc = "\<lambda>event. Encode run_deps (Root event)" and err = "''no space left on device''"]
  have a: "splunk_out (Encode run_deps) run_send [run_event] [] =
     Some [SplunkSend ''{}'', Log ErrorLevel, Sleep 1000000000,
           SplunkSend ''{}'', Log ErrorLevel, Sleep 1000000000, SplunkSend ''{}'']"
    and c: "file_out (\<lambda>event. Encode run_deps (Root event)) (\<lambda>data. Some ''no space left on device'')
     [run_event] [] = (Fatal, [FileWrite (''{}'' @ [CHR 0x0A]), Log FatalLevel])"
    by (simp_all add: e f r run_send_def)
  from flush_on_send_failure [where send = "\<lambda>n data. Some ''refused''" and enc = "Encode run_deps"
      and batch = "[run_event]" and cs = "[]"]
  have b: "splunk_out (Encode run_deps) (\<lambda>n data. Some ''refused'') [run_event] [] = None"
    by simp
  from a b c show ?thesis by (simp add: e run_send_def)
qed

text \<open>
  Claim C6 as stated fails for the file output: after one failed write there is no
  sleep and no second attempt, the process ends.
\<close>

theorem file_flush_failure_counterexample:
  "file_out (\<lambda>event. Encode run_deps (Root event)) (\<lambda>data. Some ''no space left on device'')
     [run_event] [] = (Fatal, [FileWrite (''{}'' @ [CHR 0x0A]), Log FatalLevel])"
  by (simp add: file_out_def file_write_def file_encode_def run_deps_sel)

subsection \<open>Shutdown\<close>

text \<open>
  Claim C7, as amended. \<open>Stop\<close> stops the processors in order, then the streamer,
  then the input plugin, then the output plugin, and sets the stop flag last; after
  it, the next wake-up of the growth loop and of the maintenance loop exits.
\<close>

theorem Stop_order:
  "calls (Stop p) = calls p @ [Log InfoLevel, Log InfoLevel] @ map ProcessorStop (Procs p) @
     [StreamerStop, Log InfoLevel, InputStop, Log InfoLevel, OutputStop, SetShouldStop] \<and>
   shouldStop (Stop p) \<and>
   growProcs (r # rs) t (Stop p) = Exited ((Stop p)\<lparr>activeProcs := active r\<rparr>) \<and>
   maintenance (stopNow # ms) (Stop p) = Exited (Stop p)"
proof -
  have s: "shouldStop (Stop p) \<or> stopSet r" "shouldStop (Stop p) \<or> stopNow"
    by (simp_all add: Stop_shouldStop)
  have e1: "(Stop p)\<lparr>shouldStop := True, activeProcs := active r\<rparr> = (Stop p)\<lparr>activeProcs := active r\<rparr>"
    by (simp add: Stop_def Let_def)
  have e2: "(Stop p)\<lparr>shouldStop := True\<rparr> = Stop p"
    by (simp add: Stop_def Let_def)
  show ?thesis
    by (simp only: Stop_calls Stop_shouldStop growProcs_stopped [OF s(1)]
        maintenance_stopped [OF s(2)] e1 e2 simp_thms)
qed

theorem Stop_order_witness:
  "shouldStop (Stop run_pipeline) \<and>
   growProcs [run_round] 0 (Stop run_pipeline) = Exited ((Stop run_pipeline)\<lparr>activeProcs := 2\<rparr>) \<and>
   maintenance [False] (Stop run_pipeline) = Exited (Stop run_pipeline)"
  using Stop_order [of run_pipeline run_round "[]" 0 False "[]"]
  by (simp add: run_round_def)

text \<open>
  Claim C7 as stated fails: the flag is not set first. For the pipeline with two
  processors the write of the flag is the last step of \<open>Stop\<close>, after every
  component has been stopped.
\<close>

theorem Stop_flag_first_counterexample:
  "calls (Stop run_pipeline) =
     [Log InfoLevel, Log InfoLevel, ProcessorStop 0, ProcessorStop 1, StreamerStop,
      Log InfoLevel, InputStop, Log InfoLevel, OutputStop, SetShouldStop] \<and>
   precedes (ProcessorStop 0) SetShouldStop (calls (Stop run_pipeline)) \<and>
   \<not> precedes SetShouldStop (ProcessorStop 0) (calls (Stop run_pipeline))"
  by (simp add: Stop_calls run_pipeline_sel)

subsection \<open>Errors of the admin endpoints\<close>

text \<open>
  Claim C9. On a response nothing was written to yet, each of the three error paths
  (no metric name on \<open>info\<close>, no active processors or a timeout on \<open>sample\<close>) writes
  the error body first, which sends status 200; the call of \<open>WriteHeader\<close> with 400
  or 500 that follows comes too late to change it.
\<close>

theorem admin_error_status:
  assumes "status w = None"
  shows "status (snd (serveActionInfo ms [] w)) = Some StatusOK \<and>
         (\<exists>err. body (snd (serveActionInfo ms [] w)) = body w @ [ErrResp err]) \<and>
         (activeProcs p \<le>s 0 \<or> procCount p \<le>s 0 \<longrightarrow>
            status (serveActionSample p firstSample w) = Some StatusOK \<and>
            body (serveActionSample p firstSample w) =
              body w @ [ErrResp ''There are no active processors'']) \<and>
         (0 <s activeProcs p \<and> 0 <s procCount p \<longrightarrow>
            status (serveActionSample p None w) = Some StatusOK \<and>
            (\<exists>err. body (serveActionSample p None w) = body w @ [ErrResp err]))"
  using assms
  by (auto simp add: serveActionInfo_def serveActionSample_def writeErr_def Write_def
      WriteHeader_def Header_Add_def Let_def word_sless_alt word_sle_eq)

theorem admin_error_status_witness:
  "status run_writer = None \<and>
   status (snd (serveActionInfo [] [] run_writer)) = Some 200 \<and>
   activeProcs run_pipeline \<le>s 0 \<and>
   status (serveActionSample run_pipeline None run_writer) = Some 200 \<and>
   body (serveActionSample run_pipeline None run_writer) =
     [ErrResp ''There are no active processors'']"
proof -
  have h: "status run_writer = None" by (simp add: run_writer_def)
  have a: "activeProcs run_pipeline \<le>s 0" by (simp add: run_pipeline_sel)
  from admin_error_status [OF h, of "[]" run_pipeline None] a h show ?thesis
    by (simp add: StatusOK_def run_writer_def)
qed

end
